theory Spec2Isabelle
  imports Main "HOL-Library.Word"
begin

section \<open>The pipeline engine's exec handler (pkg/devspace/pipeline/engine/handler.go)\<close>

subsection \<open>Values the handler works with\<close>

text \<open>
  An \<open>io.Writer\<close> is an interface value that the code compares with \<open>==\<close>: only its
  identity matters, so a stream is a handle. The interpreter hands every handler a
  \<open>HandlerContext\<close> whose streams are set (it replaces a missing stream by a discarding
  writer before running a command), so \<open>Stdout\<close> and \<open>Stderr\<close> are handles; the
  \<open>stdout\<close> given to \<open>NewExecHandler\<close> may be nil and is an option.
\<close>

type_synonym stream = nat

record HandlerContext =
  Env :: "string list"
  Dir :: string
  Stdin :: stream
  Stdout :: stream
  Stderr :: stream

text \<open>
  A Go \<open>context.Context\<close> as the interpreter passes it: its cancellation scope and the
  handler context that \<open>interp.HandlerCtx\<close> reads back from it.
\<close>

record go_context =
  scope :: nat
  HandlerCtx :: HandlerContext

text \<open>
  A Go \<open>error\<close> returned by a native subsystem is nil or a value with a message:
  \<open>string option\<close>, the message being what \<open>Error()\<close> returns. What the exec handler
  itself returns is nil, an exit status (\<open>interp.NewExitStatus\<close>, a \<open>uint8\<close>) or any
  other error of the default handler. \<open>NewExitStatus\<close> returns a non-nil error for every
  status, 0 included.
\<close>

datatype go_error = ExitStatus "8 word" | OtherError string

definition NewExitStatus :: "8 word \<Rightarrow> go_error option" where
  "NewExitStatus n = Some (ExitStatus n)"

text \<open>\<open>errors.Wrap(err, message)\<close>: the message of the wrapped error.\<close>

definition errors_Wrap :: "string \<Rightarrow> string \<Rightarrow> string" where
  "errors_Wrap err message = message @ '': '' @ err"

text \<open>Loggers: \<open>GetLevel\<close> and \<open>log.NewStreamLogger(stream, level)\<close>.\<close>

datatype logger = Logger nat nat | StreamLogger stream nat

fun GetLevel :: "logger \<Rightarrow> nat" where
  "GetLevel (Logger i l) = l"
| "GetLevel (StreamLogger s l) = l"

definition NewStreamLogger :: "stream \<Rightarrow> nat \<Rightarrow> logger" where
  "NewStreamLogger s l = StreamLogger s l"

text \<open>
  The orchestrator's context (\<open>devspacecontext.Context\<close>). Everything but the Go context,
  the working directory and the logger (configuration, cluster client, registries) is
  shared by reference: the handle \<open>shared\<close>.
\<close>

record Context =
  GoContext :: go_context
  WorkingDir :: string
  Log :: logger
  shared :: nat

text \<open>
  Modelled from the spec: the builders \<open>WithContext\<close>, \<open>WithWorkingDir\<close> and
  \<open>WithLogger\<close> of \<open>devspacecontext.Context\<close> are not among the source files; each
  derives a scoped view that differs from the receiver in the one field it names.
\<close>

definition WithContext :: "Context \<Rightarrow> go_context \<Rightarrow> Context" where
  "WithContext d c = d\<lparr>GoContext := c\<rparr>"

definition WithWorkingDir :: "Context \<Rightarrow> string \<Rightarrow> Context" where
  "WithWorkingDir d dir = d\<lparr>WorkingDir := dir\<rparr>"

definition WithLogger :: "Context \<Rightarrow> logger \<Rightarrow> Context" where
  "WithLogger d l = d\<lparr>Log := l\<rparr>"

record Pipeline =
  pipeline_id :: nat
  DevPodManager :: nat
  DependencyRegistry :: nat

record execHandler =
  e_ctx :: Context
  e_stdout :: "stream option"
  e_pipeline :: Pipeline
  enablePipelineCommands :: bool

subsection \<open>The collaborators and the trace of what the handler does\<close>

datatype tool = KubectlCommand | HelmV3Command

text \<open>
  The functions the handler calls and that live outside it: the native subsystems of
  package \<open>enginecommands\<close>, the path lookup, the downloader, \<open>os.Executable\<close> and the
  interpreter's default exec handler. Each is a parameter; a pair is Go's
  \<open>(value, error)\<close>.
\<close>

record externals =
  enginecommands_Pipeline :: "Context \<Rightarrow> Pipeline \<Rightarrow> string list \<Rightarrow> string option"
  enginecommands_Build :: "Context \<Rightarrow> string list \<Rightarrow> string option"
  enginecommands_Deploy :: "Context \<Rightarrow> string list \<Rightarrow> string option"
  enginecommands_StartDev :: "Context \<Rightarrow> nat \<Rightarrow> string list \<Rightarrow> string option"
  enginecommands_StopDev :: "Context \<Rightarrow> nat \<Rightarrow> string list \<Rightarrow> string option"
  enginecommands_Dependency :: "Context \<Rightarrow> nat \<Rightarrow> string list \<Rightarrow> string option"
  enginecommands_Dev :: "Context \<Rightarrow> nat \<Rightarrow> string list \<Rightarrow> string option"
  enginecommands_Cat :: "HandlerContext \<Rightarrow> string list \<Rightarrow> string option"
  lookPathDir :: "string \<Rightarrow> string list \<Rightarrow> string \<Rightarrow> string \<times> string option"
  EnsureCommand :: "tool \<Rightarrow> string \<times> string option"
  os_Executable :: "string \<times> string option"
  DefaultExecHandler :: "go_context \<Rightarrow> string list \<Rightarrow> go_error option"

datatype native_call =
    CallPipeline Context Pipeline "string list"
  | CallBuild Context "string list"
  | CallDeploy Context "string list"
  | CallStartDev Context nat "string list"
  | CallStopDev Context nat "string list"
  | CallDependency Context nat "string list"
  | CallDev Context nat "string list"

text \<open>
  The handler's effects, in the order they happen: a native subsystem call, a path
  lookup, an entry into the fallback provider, its three kinds of acquisition, a run of
  the default exec handler, and a write to a stream.
\<close>

datatype event =
    Native native_call
  | LookPath string "string list" string
  | Fallback string "string list"
  | CatCall HandlerContext "string list"
  | EnsureCommandCall tool
  | ExecutableCall
  | DefaultExec go_context "string list"
  | Write stream string

type_synonym trace = "event list"

text \<open>\<open>fmt.Fprintln(w, x)\<close>: the text of \<open>x\<close> and a newline, written to \<open>w\<close>.\<close>

definition Fprintln :: "stream \<Rightarrow> string \<Rightarrow> trace \<Rightarrow> trace" where
  "Fprintln s txt w = w @ [Write s (txt @ [CHR 0x0A])]"

text \<open>What a native call returns, from the collaborator it names.\<close>

fun native_result :: "externals \<Rightarrow> native_call \<Rightarrow> string option" where
  "native_result X (CallPipeline d p args) = enginecommands_Pipeline X d p args"
| "native_result X (CallBuild d args) = enginecommands_Build X d args"
| "native_result X (CallDeploy d args) = enginecommands_Deploy X d args"
| "native_result X (CallStartDev d m args) = enginecommands_StartDev X d m args"
| "native_result X (CallStopDev d m args) = enginecommands_StopDev X d m args"
| "native_result X (CallDependency d r args) = enginecommands_Dependency X d r args"
| "native_result X (CallDev d m args) = enginecommands_Dev X d m args"

definition call_native :: "externals \<Rightarrow> native_call \<Rightarrow> trace \<Rightarrow> string option \<times> trace" where
  "call_native X call w = (native_result X call, w @ [Native call])"

subsection \<open>The full engine (first file of handler.go)\<close>

text \<open>\<open>handleError(ctx, command, err)\<close>.\<close>

definition handleError :: "go_context \<Rightarrow> string \<Rightarrow> string option \<Rightarrow> trace \<Rightarrow> go_error option \<times> trace" where
  "handleError c command err w =
     (case err of
        None \<Rightarrow> (NewExitStatus 0, w)
      | Some m \<Rightarrow>
          (let hc = HandlerCtx c
           in (NewExitStatus 1, Fprintln (Stderr hc) (errors_Wrap m command) w)))"

text \<open>\<open>executePipelineCommand(ctx, command, commandFn)\<close>; the closure runs on the trace.\<close>

definition executePipelineCommand ::
  "execHandler \<Rightarrow> go_context \<Rightarrow> string \<Rightarrow> (trace \<Rightarrow> string option \<times> trace) \<Rightarrow> trace
     \<Rightarrow> (bool \<times> go_error option) \<times> trace" where
  "executePipelineCommand e c command commandFn w =
     (if \<not> enablePipelineCommands e then
        (let hc = HandlerCtx c
         in ((True, NewExitStatus 1),
             Fprintln (Stderr hc)
               (command @ '': cannot execute the command because it can only be executed within a pipeline step'') w))
      else
        (case commandFn w of
           (err, w') \<Rightarrow> (case handleError c command err w' of (r, w'') \<Rightarrow> ((True, r), w''))))"

text \<open>The context \<open>devCtx\<close> that \<open>handlePipelineCommands\<close> derives before its switch.\<close>

definition devCtx_of :: "execHandler \<Rightarrow> go_context \<Rightarrow> Context" where
  "devCtx_of e c =
     (let hc = HandlerCtx c;
          devCtx = WithWorkingDir (WithContext (e_ctx e) c) (Dir hc)
      in if e_stdout e \<noteq> None \<and> e_stdout e = Some (Stdout hc)
         then WithLogger devCtx (Log (e_ctx e))
         else WithLogger devCtx (NewStreamLogger (Stdout hc) (GetLevel (Log (e_ctx e)))))"

definition handlePipelineCommands ::
  "externals \<Rightarrow> execHandler \<Rightarrow> go_context \<Rightarrow> string \<Rightarrow> string list \<Rightarrow> trace
     \<Rightarrow> (bool \<times> go_error option) \<times> trace" where
  "handlePipelineCommands X e c command args w =
     (let devCtx = devCtx_of e c
      in if command = ''run_pipelines'' then
           executePipelineCommand e c command
             (call_native X (CallPipeline devCtx (e_pipeline e) args)) w
         else if command = ''build_images'' then
           executePipelineCommand e c command (call_native X (CallBuild devCtx args)) w
         else if command = ''create_deployments'' then
           executePipelineCommand e c command (call_native X (CallDeploy devCtx args)) w
         else if command = ''start_dev'' then
           executePipelineCommand e c command
             (call_native X (CallStartDev devCtx (DevPodManager (e_pipeline e)) args)) w
         else if command = ''stop_dev'' then
           executePipelineCommand e c command
             (call_native X (CallStopDev devCtx (DevPodManager (e_pipeline e)) args)) w
         else if command = ''run_dependencies_pipeline'' then
           executePipelineCommand e c command
             (call_native X (CallDependency devCtx (DependencyRegistry (e_pipeline e)) args)) w
         else ((False, None), w))"

text \<open>
  \<open>fallbackCommands(ctx, command, args)\<close>. Go passes the string \<open>command\<close> by value, and
  three branches assign to it before \<open>return nil\<close>. The function below returns the last
  value of that local beside the error, so that the assignments are part of the model;
  \<open>fallbackCommands\<close> is what the caller receives, the error alone.
\<close>

definition fallbackCommands_locals ::
  "externals \<Rightarrow> execHandler \<Rightarrow> go_context \<Rightarrow> string \<Rightarrow> string list \<Rightarrow> trace
     \<Rightarrow> (string \<times> go_error option) \<times> trace" where
  "fallbackCommands_locals X e c command args w0 =
     (let hc = HandlerCtx c; w = w0 @ [Fallback command args]
      in if command = ''cat'' then
           (case enginecommands_Cat X hc args of
              Some m \<Rightarrow> ((command, NewExitStatus 1), Fprintln (Stderr hc) m (w @ [CatCall hc args]))
            | None \<Rightarrow> ((command, NewExitStatus 0), w @ [CatCall hc args]))
         else if command = ''kubectl'' then
           (case EnsureCommand X KubectlCommand of
              (path, Some m) \<Rightarrow>
                ((command, NewExitStatus 127),
                 Fprintln (Stderr hc) m (w @ [EnsureCommandCall KubectlCommand]))
            | (path, None) \<Rightarrow> ((path, None), w @ [EnsureCommandCall KubectlCommand]))
         else if command = ''helm'' then
           (case EnsureCommand X HelmV3Command of
              (path, Some m) \<Rightarrow>
                ((command, NewExitStatus 127),
                 Fprintln (Stderr hc) m (w @ [EnsureCommandCall HelmV3Command]))
            | (path, None) \<Rightarrow> ((path, None), w @ [EnsureCommandCall HelmV3Command]))
         else if command = ''devspace'' then
           (case os_Executable X of
              (bin, Some m) \<Rightarrow>
                ((command, NewExitStatus 1), Fprintln (Stderr hc) m (w @ [ExecutableCall]))
            | (bin, None) \<Rightarrow> ((bin, None), w @ [ExecutableCall]))
         else ((command, None), w))"

definition fallbackCommands ::
  "externals \<Rightarrow> execHandler \<Rightarrow> go_context \<Rightarrow> string \<Rightarrow> string list \<Rightarrow> trace
     \<Rightarrow> go_error option \<times> trace" where
  "fallbackCommands X e c command args w =
     (case fallbackCommands_locals X e c command args w of ((command', err), w') \<Rightarrow> (err, w'))"

definition call_DefaultExecHandler ::
  "externals \<Rightarrow> go_context \<Rightarrow> string list \<Rightarrow> trace \<Rightarrow> go_error option \<times> trace" where
  "call_DefaultExecHandler X c args w = (DefaultExecHandler X c args, w @ [DefaultExec c args])"

text \<open>\<open>ExecHandler(ctx, args)\<close>: the function the interpreter calls for every command.\<close>

definition ExecHandler ::
  "externals \<Rightarrow> execHandler \<Rightarrow> go_context \<Rightarrow> string list \<Rightarrow> trace \<Rightarrow> go_error option \<times> trace" where
  "ExecHandler X e c args w =
     (case args of
        [] \<Rightarrow> call_DefaultExecHandler X c args w
      | a0 # rest \<Rightarrow>
          (case handlePipelineCommands X e c a0 rest w of
             ((handled, err), w1) \<Rightarrow>
               if handled \<or> err \<noteq> None then (err, w1)
               else
                 (let hc = HandlerCtx c;
                      w2 = w1 @ [LookPath (Dir hc) (Env hc) a0]
                  in if snd (lookPathDir X (Dir hc) (Env hc) a0) \<noteq> None then
                       (case fallbackCommands X e c a0 rest w2 of
                          (err', w3) \<Rightarrow>
                            if err' \<noteq> None then (err', w3)
                            else call_DefaultExecHandler X c args w3)
                     else call_DefaultExecHandler X c args w2)))"

subsection \<open>The reserved names and what the trace shows\<close>

definition reserved_commands :: "string list" where
  "reserved_commands =
     [''run_pipelines'', ''build_images'', ''create_deployments'', ''start_dev'', ''stop_dev'',
      ''run_dependencies_pipeline'']"

datatype subsystem =
    PipelineManager | BuildSubsystem | DeploySubsystem | StartDevSession | StopDevSession
  | DependencyPipeline | DevSubsystem

text \<open>
  The command table as the specification gives it (reserved name, native call). It is
  written from the specification's table, to compare the handler's switch with.
\<close>

definition spec_command_table :: "(string \<times> subsystem) list" where
  "spec_command_table =
     [(''run_pipelines'', PipelineManager),
      (''build_images'', BuildSubsystem),
      (''create_deployments'', DeploySubsystem),
      (''start_dev'', StartDevSession),
      (''stop_dev'', StopDevSession),
      (''run_dependencies_pipeline'', DependencyPipeline)]"

fun subsystem_of :: "native_call \<Rightarrow> subsystem" where
  "subsystem_of (CallPipeline d p args) = PipelineManager"
| "subsystem_of (CallBuild d args) = BuildSubsystem"
| "subsystem_of (CallDeploy d args) = DeploySubsystem"
| "subsystem_of (CallStartDev d m args) = StartDevSession"
| "subsystem_of (CallStopDev d m args) = StopDevSession"
| "subsystem_of (CallDependency d r args) = DependencyPipeline"
| "subsystem_of (CallDev d m args) = DevSubsystem"

fun call_args :: "native_call \<Rightarrow> string list" where
  "call_args (CallPipeline d p args) = args"
| "call_args (CallBuild d args) = args"
| "call_args (CallDeploy d args) = args"
| "call_args (CallStartDev d m args) = args"
| "call_args (CallStopDev d m args) = args"
| "call_args (CallDependency d r args) = args"
| "call_args (CallDev d m args) = args"

fun call_ctx :: "native_call \<Rightarrow> Context" where
  "call_ctx (CallPipeline d p args) = d"
| "call_ctx (CallBuild d args) = d"
| "call_ctx (CallDeploy d args) = d"
| "call_ctx (CallStartDev d m args) = d"
| "call_ctx (CallStopDev d m args) = d"
| "call_ctx (CallDependency d r args) = d"
| "call_ctx (CallDev d m args) = d"

text \<open>The native calls of a trace, and the texts written to one stream, in order.\<close>

fun native_calls :: "trace \<Rightarrow> native_call list" where
  "native_calls [] = []"
| "native_calls (Native call # w) = call # native_calls w"
| "native_calls (ev # w) = native_calls w"

fun written :: "stream \<Rightarrow> trace \<Rightarrow> string list" where
  "written s [] = []"
| "written s (Write s' txt # w) = (if s' = s then txt # written s w else written s w)"
| "written s (ev # w) = written s w"

text \<open>
  The events of resolving a name as an external command: the path lookup, the fallback
  provider and all it does, and default process execution.
\<close>

fun is_resolution :: "event \<Rightarrow> bool" where
  "is_resolution (Native call) = False"
| "is_resolution (Write s txt) = False"
| "is_resolution ev = True"

fun default_execs :: "trace \<Rightarrow> string list list" where
  "default_execs [] = []"
| "default_execs (DefaultExec c args # w) = args # default_execs w"
| "default_execs (ev # w) = default_execs w"

subsection \<open>The reduced engine (second file of handler.go)\<close>

text \<open>
  The second file is the handler with the commands \<open>build\<close>, \<open>deploy\<close> and \<open>dev\<close>: its
  \<open>execHandler\<close> has a context and a dev-pod manager, no top-level output stream and no
  flag that enables or disables its commands.
\<close>

record execHandler_reduced =
  r_ctx :: Context
  r_manager :: nat

text \<open>\<open>handleError(ctx, err)\<close> of the reduced engine.\<close>

definition handleError_reduced :: "go_context \<Rightarrow> string option \<Rightarrow> trace \<Rightarrow> go_error option \<times> trace" where
  "handleError_reduced c err w =
     (case err of
        None \<Rightarrow> (NewExitStatus 0, w)
      | Some m \<Rightarrow> (let hc = HandlerCtx c in (NewExitStatus 1, Fprintln (Stderr hc) m w)))"

definition devCtx_of_reduced :: "execHandler_reduced \<Rightarrow> go_context \<Rightarrow> Context" where
  "devCtx_of_reduced e c =
     (let hc = HandlerCtx c
      in WithLogger (WithWorkingDir (WithContext (r_ctx e) c) (Dir hc))
           (NewStreamLogger (Stdout hc) (GetLevel (Log (r_ctx e)))))"

definition handlePipelineCommands_reduced ::
  "externals \<Rightarrow> execHandler_reduced \<Rightarrow> go_context \<Rightarrow> string \<Rightarrow> string list \<Rightarrow> trace
     \<Rightarrow> (bool \<times> go_error option) \<times> trace" where
  "handlePipelineCommands_reduced X e c command args w =
     (let devCtx = devCtx_of_reduced e c
      in if command = ''build'' then
           (case call_native X (CallBuild devCtx args) w of
              (err, w') \<Rightarrow> (case handleError_reduced c err w' of (r, w'') \<Rightarrow> ((True, r), w'')))
         else if command = ''deploy'' then
           (case call_native X (CallDeploy devCtx args) w of
              (err, w') \<Rightarrow> (case handleError_reduced c err w' of (r, w'') \<Rightarrow> ((True, r), w'')))
         else if command = ''dev'' then
           (case call_native X (CallDev devCtx (r_manager e) args) w of
              (err, w') \<Rightarrow> (case handleError_reduced c err w' of (r, w'') \<Rightarrow> ((True, r), w'')))
         else ((False, None), w))"

text \<open>
  \<open>fallbackCommands\<close> of the reduced engine: the same four substitutions, and a
  \<open>default\<close> branch. The local \<open>command\<close> is returned beside the error as above.
\<close>

definition fallbackCommands_reduced_locals ::
  "externals \<Rightarrow> execHandler_reduced \<Rightarrow> go_context \<Rightarrow> string \<Rightarrow> string list \<Rightarrow> trace
     \<Rightarrow> (string \<times> go_error option) \<times> trace" where
  "fallbackCommands_reduced_locals X e c command args w0 =
     (let hc = HandlerCtx c; w = w0 @ [Fallback command args]
      in if command = ''cat'' then
           (case enginecommands_Cat X hc args of
              Some m \<Rightarrow> ((command, NewExitStatus 1), Fprintln (Stderr hc) m (w @ [CatCall hc args]))
            | None \<Rightarrow> ((command, NewExitStatus 0), w @ [CatCall hc args]))
         else if command = ''kubectl'' then
           (case EnsureCommand X KubectlCommand of
              (path, Some m) \<Rightarrow>
                ((command, NewExitStatus 127),
                 Fprintln (Stderr hc) m (w @ [EnsureCommandCall KubectlCommand]))
            | (path, None) \<Rightarrow> ((path, None), w @ [EnsureCommandCall KubectlCommand]))
         else if command = ''helm'' then
           (case EnsureCommand X HelmV3Command of
              (path, Some m) \<Rightarrow>
                ((command, NewExitStatus 127),
                 Fprintln (Stderr hc) m (w @ [EnsureCommandCall HelmV3Command]))
            | (path, None) \<Rightarrow> ((path, None), w @ [EnsureCommandCall HelmV3Command]))
         else if command = ''devspace'' then
           (case os_Executable X of
              (bin, Some m) \<Rightarrow>
                ((command, NewExitStatus 1), Fprintln (Stderr hc) m (w @ [ExecutableCall]))
            | (bin, None) \<Rightarrow> ((bin, None), w @ [ExecutableCall]))
         else ((command, NewExitStatus 127), Fprintln (Stderr hc) ''command is not found.'' w))"

definition fallbackCommands_reduced ::
  "externals \<Rightarrow> execHandler_reduced \<Rightarrow> go_context \<Rightarrow> string \<Rightarrow> string list \<Rightarrow> trace
     \<Rightarrow> go_error option \<times> trace" where
  "fallbackCommands_reduced X e c command args w =
     (case fallbackCommands_reduced_locals X e c command args w of
        ((command', err), w') \<Rightarrow> (err, w'))"

definition ExecHandler_reduced ::
  "externals \<Rightarrow> execHandler_reduced \<Rightarrow> go_context \<Rightarrow> string list \<Rightarrow> trace
     \<Rightarrow> go_error option \<times> trace" where
  "ExecHandler_reduced X e c args w =
     (case args of
        [] \<Rightarrow> call_DefaultExecHandler X c args w
      | a0 # rest \<Rightarrow>
          (case handlePipelineCommands_reduced X e c a0 rest w of
             ((handled, err), w1) \<Rightarrow>
               if handled \<or> err \<noteq> None then (err, w1)
               else
                 (let hc = HandlerCtx c;
                      w2 = w1 @ [LookPath (Dir hc) (Env hc) a0]
                  in if snd (lookPathDir X (Dir hc) (Env hc) a0) \<noteq> None then
                       (case fallbackCommands_reduced X e c a0 rest w2 of
                          (err', w3) \<Rightarrow>
                            if err' \<noteq> None then (err', w3)
                            else call_DefaultExecHandler X c args w3)
                     else call_DefaultExecHandler X c args w2)))"

text \<open>The names of the fallback provider's switch, and of the reduced engine's.\<close>

definition fallback_commands :: "string list" where
  "fallback_commands = [''cat'', ''kubectl'', ''helm'', ''devspace'']"

definition reduced_commands :: "string list" where
  "reduced_commands = [''build'', ''deploy'', ''dev'']"

subsection \<open>Concrete inputs\<close>

text \<open>
  A handler context with output stream 1 and error stream 2, an ambient logger, and
  collaborators under which no name is found on the local path, every native subsystem
  succeeds except the build (which fails with \<open>boom\<close>), the cluster CLI is acquired at
  \<open>/cache/kubectl\<close>, the package-manager CLI cannot be acquired, and the default exec
  handler reports status 127 for a name that is not a path and 0 otherwise.
\<close>

definition hc0 :: HandlerContext where
  "hc0 = \<lparr>Env = [], Dir = ''/work/step'', Stdin = 0, Stdout = 1, Stderr = 2\<rparr>"

definition c0 :: go_context where
  "c0 = \<lparr>scope = 7, HandlerCtx = hc0\<rparr>"

definition ctx0 :: Context where
  "ctx0 = \<lparr>GoContext = \<lparr>scope = 0, HandlerCtx = hc0\<rparr>, WorkingDir = ''/work'',
           Log = Logger 0 4, shared = 0\<rparr>"

definition pipeline0 :: Pipeline where
  "pipeline0 = \<lparr>pipeline_id = 0, DevPodManager = 1, DependencyRegistry = 2\<rparr>"

definition e_on :: execHandler where
  "e_on = \<lparr>e_ctx = ctx0, e_stdout = Some 1, e_pipeline = pipeline0, enablePipelineCommands = True\<rparr>"

definition e_off :: execHandler where
  "e_off = \<lparr>e_ctx = ctx0, e_stdout = Some 5, e_pipeline = pipeline0, enablePipelineCommands = False\<rparr>"

definition e_red :: execHandler_reduced where
  "e_red = \<lparr>r_ctx = ctx0, r_manager = 1\<rparr>"

definition X0 :: externals where
  "X0 = \<lparr>enginecommands_Pipeline = (\<lambda>d p args. None),
         enginecommands_Build = (\<lambda>d args. Some ''boom''),
         enginecommands_Deploy = (\<lambda>d args. None),
         enginecommands_StartDev = (\<lambda>d m args. None),
         enginecommands_StopDev = (\<lambda>d m args. None),
         enginecommands_Dependency = (\<lambda>d r args. None),
         enginecommands_Dev = (\<lambda>d m args. None),
         enginecommands_Cat = (\<lambda>hc args. if args = [] then None else Some ''open: no such file''),
         lookPathDir = (\<lambda>dir env name. ([], Some ''executable file not found in $PATH'')),
         EnsureCommand = (\<lambda>t. case t of KubectlCommand \<Rightarrow> (''/cache/kubectl'', None)
                                | HelmV3Command \<Rightarrow> ([], Some ''download failed'')),
         os_Executable = (''/usr/local/bin/devspace'', None),
         DefaultExecHandler = (\<lambda>c args. case args of [] \<Rightarrow> None
                                | a # as \<Rightarrow> if CHR ''/'' \<in> set a then NewExitStatus 0
                                           else NewExitStatus 127)\<rparr>"

section \<open>The kubectl deployer (Deploy and the functions it calls)\<close>

subsection \<open>Data\<close>

record KubectlConfig =
  ApplyArgs :: "string list"
  ReplaceImageTags :: bool
  Kustomize :: "bool option"

text \<open>
  \<open>New\<close> refuses a deployment whose \<open>Kubectl\<close> is nil, so the deployer's
  \<open>DeploymentConfig.Kubectl\<close> is always there.
\<close>

record DeploymentConfig =
  dc_Name :: string
  Kubectl :: KubectlConfig

record DeployConfig =
  d_Name :: string
  d_CmdPath :: string
  d_Context :: string
  d_Namespace :: string
  d_IsInCluster :: bool
  d_Manifests :: "string list"
  d_DeploymentConfig :: DeploymentConfig

text \<open>
  The cache entry of a deployment: the two hashes \<open>Deploy\<close> writes, and the rest of
  the entry, which it carries over.
\<close>

record DeploymentCache =
  KubectlManifestsHash :: string
  DeploymentConfigHash :: string
  other_fields :: nat

text \<open>A resource built from a manifest: its \<open>Object\<close> is nil or has content.\<close>

record resource =
  Object :: "string option"

text \<open>One \<open>cmd.Run\<close>: the command path, its arguments, the directory and the standard input.\<close>

record run =
  run_path :: string
  run_args :: "string list"
  run_dir :: string
  run_stdin :: string

datatype log_event = StartWait string | StopWait | Infof string

datatype deploy_error =
    ErrHashing string string
  | ErrMarshalConfig string
  | ErrBuild string
  | ErrReplace string
  | ErrMarshalYaml string
  | ErrManifest deploy_error string
  | ErrApply string string

text \<open>
  What the deployer calls outside this file: hashing, path resolution, YAML marshalling,
  the image-name replacement (which edits the resource's object in place and says whether
  a redeploy is needed), the command executer, the two manifest builders, the run of a
  command (whose outcome may depend on the runs before it), and the remote cache, of a
  type \<open>'rc\<close> that the deployer only reads and writes through its two functions.
\<close>

record 'rc kube_externals =
  hash_String :: "string \<Rightarrow> string"
  hash_Directory :: "string \<Rightarrow> string \<times> string option"
  ResolvePath :: "Context \<Rightarrow> string \<Rightarrow> string"
  yaml_Marshal_config :: "DeploymentConfig \<Rightarrow> string \<times> string option"
  yaml_Marshal :: "resource \<Rightarrow> string \<times> string option"
  ReplaceImageNamesStringMap :: "string \<Rightarrow> string \<times> bool \<times> string option"
  RunCommand :: "string \<Rightarrow> string \<Rightarrow> string list \<Rightarrow> string option"
  KustomizeBuild :: "DeploymentConfig \<Rightarrow> string \<Rightarrow> string \<Rightarrow> resource list \<times> string option"
  KubectlBuild :: "DeployConfig \<Rightarrow> string \<Rightarrow> string \<Rightarrow> resource list \<times> string option"
  cmd_Run :: "run list \<Rightarrow> run \<Rightarrow> string option"
  GetDeploymentCache :: "'rc \<Rightarrow> string \<Rightarrow> DeploymentCache"
  SetDeploymentCache :: "'rc \<Rightarrow> string \<Rightarrow> DeploymentCache \<Rightarrow> 'rc"

text \<open>What \<open>Deploy\<close> changes: the commands run, the log, and the remote cache.\<close>

record 'rc kube_world =
  runs :: "run list"
  k_log :: "log_event list"
  remote_cache :: "'rc"

subsection \<open>The functions\<close>

definition HasPrefix :: "string \<Rightarrow> string \<Rightarrow> bool" where
  "HasPrefix s p = (take (length p) s = p)"

text \<open>\<open>strings.Join\<close>.\<close>

fun Join :: "string list \<Rightarrow> string \<Rightarrow> string" where
  "Join [] sep = []"
| "Join [x] sep = x"
| "Join (x # y # ys) sep = x @ sep @ Join (y # ys) sep"

text \<open>\<open>getCmdArgs(method, additionalArgs...)\<close>.\<close>

definition getCmdArgs :: "DeployConfig \<Rightarrow> string \<Rightarrow> string list \<Rightarrow> string list" where
  "getCmdArgs d method additionalArgs =
     (let args = [];
          args = (if d_Context d \<noteq> [] \<and> \<not> d_IsInCluster d
                  then args @ [''--context'', d_Context d] else args);
          args = (if d_Namespace d \<noteq> [] then args @ [''--namespace'', d_Namespace d] else args);
          args = args @ [method];
          args = (if additionalArgs \<noteq> [] then args @ additionalArgs else args)
      in args @ [''-f'', ''-''])"

definition isKustomizeInstalled :: "'rc kube_externals \<Rightarrow> string \<Rightarrow> string \<Rightarrow> bool" where
  "isKustomizeInstalled K dir path = (RunCommand K dir path [''version''] = None)"

definition buildManifests ::
  "'rc kube_externals \<Rightarrow> DeployConfig \<Rightarrow> Context \<Rightarrow> string \<Rightarrow> resource list \<times> string option" where
  "buildManifests K d ctx manifest =
     (if Kustomize (Kubectl (d_DeploymentConfig d)) = Some True
         \<and> isKustomizeInstalled K (WorkingDir ctx) ''kustomize''
      then KustomizeBuild K (d_DeploymentConfig d) (WorkingDir ctx) manifest
      else KubectlBuild K d (WorkingDir ctx) manifest)"

text \<open>
  The loop of \<open>getReplacedManifest\<close> over the built resources, with its two locals
  \<open>replaceManifests\<close> and \<open>shouldRedeploy\<close>.
\<close>

fun replaceResources ::
  "'rc kube_externals \<Rightarrow> DeployConfig \<Rightarrow> resource list \<Rightarrow> string list \<Rightarrow> bool
     \<Rightarrow> deploy_error + (bool \<times> string list)" where
  "replaceResources K d [] replaceManifests shouldRedeploy = Inr (shouldRedeploy, replaceManifests)"
| "replaceResources K d (res # rest) replaceManifests shouldRedeploy =
     (case Object res of
        None \<Rightarrow> replaceResources K d rest replaceManifests shouldRedeploy
      | Some obj \<Rightarrow>
          (if ReplaceImageTags (Kubectl (d_DeploymentConfig d)) then
             (case ReplaceImageNamesStringMap K obj of
                (obj', redeploy, Some err) \<Rightarrow> Inl (ErrReplace err)
              | (obj', redeploy, None) \<Rightarrow>
                  (case yaml_Marshal K (res\<lparr>Object := Some obj'\<rparr>) of
                     (y, Some err) \<Rightarrow> Inl (ErrMarshalYaml err)
                   | (y, None) \<Rightarrow>
                       replaceResources K d rest (replaceManifests @ [y])
                         (if redeploy then True else shouldRedeploy)))
           else
             (case yaml_Marshal K res of
                (y, Some err) \<Rightarrow> Inl (ErrMarshalYaml err)
              | (y, None) \<Rightarrow> replaceResources K d rest (replaceManifests @ [y]) shouldRedeploy)))"

definition getReplacedManifest ::
  "'rc kube_externals \<Rightarrow> DeployConfig \<Rightarrow> Context \<Rightarrow> string \<Rightarrow> bool \<times> string \<times> deploy_error option" where
  "getReplacedManifest K d ctx manifest =
     (case buildManifests K d ctx manifest of
        (objects, Some err) \<Rightarrow> (False, [], Some (ErrBuild err))
      | (objects, None) \<Rightarrow>
          (case replaceResources K d objects [] False of
             Inl err \<Rightarrow> (False, [], Some err)
           | Inr (shouldRedeploy, replaceManifests) \<Rightarrow>
               (shouldRedeploy, Join replaceManifests ([CHR 0x0A] @ ''---'' @ [CHR 0x0A]), None)))"

text \<open>The first loop of \<open>Deploy\<close>: the hash of the manifests, accumulated in order.\<close>

fun hashManifests ::
  "'rc kube_externals \<Rightarrow> Context \<Rightarrow> string list \<Rightarrow> string \<Rightarrow> deploy_error + string" where
  "hashManifests K ctx [] manifestsHash = Inr manifestsHash"
| "hashManifests K ctx (manifest # rest) manifestsHash =
     (if HasPrefix manifest ''http://'' \<or> HasPrefix manifest ''https://'' then
        hashManifests K ctx rest (manifestsHash @ hash_String K manifest)
      else
        (let manifest' = ResolvePath K ctx manifest
         in case hash_Directory K manifest' of
              (h, Some err) \<Rightarrow> Inl (ErrHashing manifest' err)
            | (h, None) \<Rightarrow> hashManifests K ctx rest (manifestsHash @ h)))"

text \<open>The run that applies one replaced manifest.\<close>

definition apply_run :: "DeployConfig \<Rightarrow> Context \<Rightarrow> string \<Rightarrow> run" where
  "apply_run d ctx replacedManifest =
     \<lparr>run_path = d_CmdPath d,
      run_args = getCmdArgs d ''apply'' [''--force''] @ ApplyArgs (Kubectl (d_DeploymentConfig d)),
      run_dir = WorkingDir ctx,
      run_stdin = replacedManifest\<rparr>"

text \<open>
  The second loop of \<open>Deploy\<close>, with its locals \<open>forceDeploy\<close> and \<open>wasDeployed\<close>. A
  failing run has been started, so it is in the world that the error leaves.
\<close>

fun applyManifests ::
  "'rc kube_externals \<Rightarrow> DeployConfig \<Rightarrow> Context \<Rightarrow> bool \<Rightarrow> string list \<Rightarrow> bool \<Rightarrow> 'rc kube_world
     \<Rightarrow> (deploy_error + bool) \<times> 'rc kube_world" where
  "applyManifests K d ctx forceDeploy [] wasDeployed s = (Inr wasDeployed, s)"
| "applyManifests K d ctx forceDeploy (manifest # rest) wasDeployed s =
     (case getReplacedManifest K d ctx manifest of
        (shouldRedeploy, replacedManifest, Some err) \<Rightarrow> (Inl (ErrManifest err manifest), s)
      | (shouldRedeploy, replacedManifest, None) \<Rightarrow>
          (if shouldRedeploy \<or> forceDeploy then
             (let r = apply_run d ctx replacedManifest;
                  s' = s\<lparr>runs := runs s @ [r]\<rparr>
              in case cmd_Run K (runs s) r of
                   Some err \<Rightarrow> (Inl (ErrApply err manifest), s')
                 | None \<Rightarrow> applyManifests K d ctx forceDeploy rest True s')
           else
             applyManifests K d ctx forceDeploy rest wasDeployed
               (s\<lparr>k_log := k_log s @ [Infof (''Skipping manifest '' @ manifest)]\<rparr>)))"

text \<open>
  \<open>Deploy\<close>. The result is Go's \<open>(bool, error)\<close>; \<open>defer ctx.Log.StopWait()\<close> runs on every
  return after \<open>StartWait\<close>.
\<close>

definition Deploy ::
  "'rc kube_externals \<Rightarrow> DeployConfig \<Rightarrow> Context \<Rightarrow> 'rc kube_world
     \<Rightarrow> (bool \<times> deploy_error option) \<times> 'rc kube_world" where
  "Deploy K d ctx s =
     (let deployCache = GetDeploymentCache K (remote_cache s) (dc_Name (d_DeploymentConfig d))
      in case hashManifests K ctx (d_Manifests d) [] of
           Inl err \<Rightarrow> ((False, Some err), s)
         | Inr manifestsHash \<Rightarrow>
             (case yaml_Marshal_config K (d_DeploymentConfig d) of
                (configStr, Some err) \<Rightarrow> ((False, Some (ErrMarshalConfig err)), s)
              | (configStr, None) \<Rightarrow>
                  (let deploymentConfigHash = hash_String K configStr;
                       forceDeploy = True;
                       s1 = s\<lparr>k_log := k_log s @ [StartWait ''Applying manifests with kubectl'']\<rparr>
                   in case applyManifests K d ctx forceDeploy (d_Manifests d) False s1 of
                        (Inl err, s2) \<Rightarrow> ((False, Some err), s2\<lparr>k_log := k_log s2 @ [StopWait]\<rparr>)
                      | (Inr wasDeployed, s2) \<Rightarrow>
                          (let deployCache' =
                                 deployCache\<lparr>KubectlManifestsHash := manifestsHash,
                                             DeploymentConfigHash := deploymentConfigHash\<rparr>;
                               s3 = s2\<lparr>remote_cache :=
                                          SetDeploymentCache K (remote_cache s2)
                                            (dc_Name (d_DeploymentConfig d)) deployCache'\<rparr>
                           in ((wasDeployed, None), s3\<lparr>k_log := k_log s3 @ [StopWait]\<rparr>)))))"

subsection \<open>A concrete deployment\<close>

text \<open>
  Two manifests, a cache kept as a map whose entry for the deployment already holds the
  hashes that this run computes, and collaborators that all succeed.
\<close>

definition K0 :: "(string \<Rightarrow> DeploymentCache option) kube_externals" where
  "K0 = \<lparr>hash_String = (\<lambda>s. ''H'' @ s),
         hash_Directory = (\<lambda>p. (''D'' @ p, None)),
         ResolvePath = (\<lambda>ctx p. p),
         yaml_Marshal_config = (\<lambda>dc. (''cfg'', None)),
         yaml_Marshal = (\<lambda>r. (case Object r of None \<Rightarrow> [] | Some obj \<Rightarrow> obj, None)),
         ReplaceImageNamesStringMap = (\<lambda>obj. (obj, False, None)),
         RunCommand = (\<lambda>dir path args. None),
         KustomizeBuild = (\<lambda>dc dir m. ([], None)),
         KubectlBuild = (\<lambda>d dir m. ([\<lparr>Object = Some m\<rparr>], None)),
         cmd_Run = (\<lambda>before r. None),
         GetDeploymentCache =
           (\<lambda>rc name. case rc name of
                         None \<Rightarrow> \<lparr>KubectlManifestsHash = [], DeploymentConfigHash = [],
                                  other_fields = 0\<rparr>
                       | Some dc \<Rightarrow> dc),
         SetDeploymentCache = (\<lambda>rc name dc. rc(name \<mapsto> dc))\<rparr>"

definition d0 :: DeployConfig where
  "d0 = \<lparr>d_Name = ''app'', d_CmdPath = ''kubectl'', d_Context = ''dev'', d_Namespace = ''ns'',
         d_IsInCluster = False, d_Manifests = [''a'', ''b''],
         d_DeploymentConfig =
           \<lparr>dc_Name = ''app'',
            Kubectl = \<lparr>ApplyArgs = [], ReplaceImageTags = False, Kustomize = None\<rparr>\<rparr>\<rparr>"

definition cached0 :: DeploymentCache where
  "cached0 = \<lparr>KubectlManifestsHash = ''DaDb'', DeploymentConfigHash = ''Hcfg'', other_fields = 3\<rparr>"

definition s0 :: "(string \<Rightarrow> DeploymentCache option) kube_world" where
  "s0 = \<lparr>runs = [], k_log = [], remote_cache = [''app'' \<mapsto> cached0]\<rparr>"

section \<open>The version check (pkg/devspace/upgrade/upgrade.go)\<close>

text \<open>
  The package's variables: the version of the running binary, the memoised result, the
  \<open>sync.Once\<close> (done or not), and, to count what the claim is about, the number of
  remote lookups made so far.
\<close>

record upgrade_state =
  version :: string
  latestVersion :: string
  latestVersionErr :: "string option"
  latestVersionOnce :: bool
  lookups :: nat

text \<open>
  \<open>selfupdate.DetectLatest\<close> returns an error, or no release, or the latest release with
  its version.
\<close>

datatype 'v detected = DetectError string | NotFound | Found 'v

text \<open>
  The libraries: the remote lookup, whose answer may differ from one lookup to the next
  (it is given the number of lookups made before), and the semantic versions of type
  \<open>'v\<close> with their parser, equality and printer.
\<close>

record 'v upgrade_externals =
  DetectLatest :: "nat \<Rightarrow> string \<Rightarrow> 'v detected"
  semver_Parse :: "string \<Rightarrow> 'v option"
  semver_Equals :: "'v \<Rightarrow> 'v \<Rightarrow> bool"
  semver_String :: "'v \<Rightarrow> string"

datatype 'a outcome = Panic string | Return 'a

definition githubSlug :: string where
  "githubSlug = ''loft-sh/devspace''"

text \<open>The function given to \<open>latestVersionOnce.Do\<close>; \<open>semver.MustParse\<close> panics on a parse error.\<close>

definition detect_body :: "'v upgrade_externals \<Rightarrow> upgrade_state \<Rightarrow> unit outcome \<times> upgrade_state" where
  "detect_body U s =
     (let s1 = s\<lparr>lookups := lookups s + 1\<rparr>
      in case DetectLatest U (lookups s) githubSlug of
           DetectError err \<Rightarrow> (Return (), s1\<lparr>latestVersionErr := Some err\<rparr>)
         | NotFound \<Rightarrow>
             (case semver_Parse U (version s1) of
                None \<Rightarrow> (Panic ''semver.MustParse'', s1)
              | Some v \<Rightarrow> (Return (), s1))
         | Found latest \<Rightarrow>
             (case semver_Parse U (version s1) of
                None \<Rightarrow> (Panic ''semver.MustParse'', s1)
              | Some v \<Rightarrow>
                  if semver_Equals U latest v then (Return (), s1)
                  else (Return (), s1\<lparr>latestVersion := semver_String U latest\<rparr>)))"

text \<open>
  \<open>sync.Once.Do(f)\<close>: \<open>f\<close> runs if the Once is not done, and the Once is done when \<open>f\<close>
  has returned or panicked.
\<close>

definition Once_Do ::
  "(upgrade_state \<Rightarrow> unit outcome \<times> upgrade_state) \<Rightarrow> upgrade_state \<Rightarrow> unit outcome \<times> upgrade_state" where
  "Once_Do f s =
     (if latestVersionOnce s then (Return (), s)
      else (case f s of (r, s') \<Rightarrow> (r, s'\<lparr>latestVersionOnce := True\<rparr>)))"

definition CheckForNewerVersion ::
  "'v upgrade_externals \<Rightarrow> upgrade_state \<Rightarrow> (string \<times> string option) outcome \<times> upgrade_state" where
  "CheckForNewerVersion U s =
     (case Once_Do (detect_body U) s of
        (Panic m, s') \<Rightarrow> (Panic m, s')
      | (Return u, s') \<Rightarrow> (Return (latestVersion s', latestVersionErr s'), s'))"

text \<open>
  \<open>n\<close> calls one after the other, each on the variables as the call before left them. A
  call that panics ends there; the calls after it are those of a caller that recovered.
\<close>

primrec calls ::
  "'v upgrade_externals \<Rightarrow> nat \<Rightarrow> upgrade_state
     \<Rightarrow> (string \<times> string option) outcome list \<times> upgrade_state" where
  "calls U 0 s = ([], s)"
| "calls U (Suc n) s =
     (case CheckForNewerVersion U s of
        (r, s1) \<Rightarrow> (case calls U n s1 of (rs, s2) \<Rightarrow> (r # rs, s2)))"

text \<open>
  A process start (no version set, nothing memoised), a binary of version 1.2.3, and a
  remote whose first lookup finds 1.3.0 and whose later lookups would fail. Versions are
  their texts.
\<close>

definition U0 :: "string upgrade_externals" where
  "U0 = \<lparr>DetectLatest = (\<lambda>n slug. if n = 0 then Found ''1.3.0'' else DetectError ''offline''),
         semver_Parse = (\<lambda>s. if s = [] then None else Some s),
         semver_Equals = (\<lambda>a b. a = b),
         semver_String = (\<lambda>v. v)\<rparr>"

definition u0 :: upgrade_state where
  "u0 = \<lparr>version = ''1.2.3'', latestVersion = [], latestVersionErr = None,
         latestVersionOnce = False, lookups = 0\<rparr>"

section \<open>Properties of the exec handler\<close>

lemma native_calls_append: "native_calls (w @ v) = native_calls w @ native_calls v"
  by (induction w rule: native_calls.induct) simp_all

lemma written_append: "written s (w @ v) = written s w @ written s v"
  by (induction s w rule: written.induct) simp_all

lemma default_execs_append: "default_execs (w @ v) = default_execs w @ default_execs v"
  by (induction w rule: default_execs.induct) simp_all

subsection \<open>The dispatcher\<close>

lemma reserved_cases:
  "command \<in> set reserved_commands \<Longrightarrow>
     command = ''run_pipelines'' \<or> command = ''build_images'' \<or> command = ''create_deployments''
     \<or> command = ''start_dev'' \<or> command = ''stop_dev'' \<or> command = ''run_dependencies_pipeline''"
  by (simp add: reserved_commands_def)

lemma table_keys: "map fst spec_command_table = reserved_commands"
  by (simp add: spec_command_table_def reserved_commands_def)

lemma executePipelineCommand_enabled:
  "enablePipelineCommands e \<Longrightarrow>
   executePipelineCommand e c command (call_native X call) w =
     ((True, Some (ExitStatus (if native_result X call = None then 0 else 1))),
      w @ Native call #
        (case native_result X call of
           None \<Rightarrow> []
         | Some m \<Rightarrow> [Write (Stderr (HandlerCtx c)) (command @ '': '' @ m @ [CHR 0x0A])]))"
  by (simp add: executePipelineCommand_def call_native_def handleError_def NewExitStatus_def
        Fprintln_def errors_Wrap_def split: option.split)

lemma executePipelineCommand_disabled:
  "\<not> enablePipelineCommands e \<Longrightarrow>
   executePipelineCommand e c command fn w =
     ((True, Some (ExitStatus 1)),
      w @ [Write (Stderr (HandlerCtx c))
             (command @ '': cannot execute the command because it can only be executed within a pipeline step'' @ [CHR 0x0A])])"
  by (simp add: executePipelineCommand_def NewExitStatus_def Fprintln_def)

text \<open>
  Each reserved name reaches \<open>executePipelineCommand\<close> with the closure that calls the
  subsystem the specification's table gives for it, on the derived context and the
  arguments as received.
\<close>

lemma switch_reserved:
  assumes "command \<in> set reserved_commands"
  shows "\<exists>call. handlePipelineCommands X e c command args w =
                  executePipelineCommand e c command (call_native X call) w
              \<and> map_of spec_command_table command = Some (subsystem_of call)
              \<and> call_args call = args \<and> call_ctx call = devCtx_of e c"
proof -
  consider "command = ''run_pipelines''" | "command = ''build_images''"
    | "command = ''create_deployments''" | "command = ''start_dev''" | "command = ''stop_dev''"
    | "command = ''run_dependencies_pipeline''"
    using reserved_cases[OF assms] by (elim disjE)
  then show ?thesis
  proof cases
    case 1
    then show ?thesis
      by (intro exI[of _ "CallPipeline (devCtx_of e c) (e_pipeline e) args"])
         (simp add: handlePipelineCommands_def spec_command_table_def)
  next
    case 2
    then show ?thesis
      by (intro exI[of _ "CallBuild (devCtx_of e c) args"])
         (simp add: handlePipelineCommands_def spec_command_table_def)
  next
    case 3
    then show ?thesis
      by (intro exI[of _ "CallDeploy (devCtx_of e c) args"])
         (simp add: handlePipelineCommands_def spec_command_table_def)
  next
    case 4
    then show ?thesis
      by (intro exI[of _ "CallStartDev (devCtx_of e c) (DevPodManager (e_pipeline e)) args"])
         (simp add: handlePipelineCommands_def spec_command_table_def)
  next
    case 5
    then show ?thesis
      by (intro exI[of _ "CallStopDev (devCtx_of e c) (DevPodManager (e_pipeline e)) args"])
         (simp add: handlePipelineCommands_def spec_command_table_def)
  next
    case 6
    then show ?thesis
      by (intro exI[of _ "CallDependency (devCtx_of e c) (DependencyRegistry (e_pipeline e)) args"])
         (simp add: handlePipelineCommands_def spec_command_table_def)
  qed
qed

lemma ExecHandler_handled:
  "handlePipelineCommands X e c a0 rest w = ((True, r), w') \<Longrightarrow>
   ExecHandler X e c (a0 # rest) w = (r, w')"
  by (simp add: ExecHandler_def)

text \<open>
  Claim C1. With pipeline commands enabled, a reserved command makes exactly one native
  call: to the subsystem that the specification's table maps the name to, on the derived
  context, with the argument list that followed the name. The handler returns an exit
  status, and it is 0 exactly when that call returned no error.
\<close>

theorem C1_reserved_enabled_calls_mapped_subsystem:
  assumes "enablePipelineCommands e" and "command \<in> set reserved_commands"
  shows "\<exists>call status w'.
           ExecHandler X e c (command # args) w = (Some (ExitStatus status), w')
         \<and> native_calls w' = native_calls w @ [call]
         \<and> map_of spec_command_table command = Some (subsystem_of call)
         \<and> call_args call = args
         \<and> call_ctx call = devCtx_of e c
         \<and> (status = 0 \<longleftrightarrow> native_result X call = None)"
proof -
  obtain call where sw: "handlePipelineCommands X e c command args w =
                  executePipelineCommand e c command (call_native X call) w"
    and tab: "map_of spec_command_table command = Some (subsystem_of call)"
    and ar: "call_args call = args" and cx: "call_ctx call = devCtx_of e c"
    using switch_reserved[OF assms(2), of X e c args w] by blast
  let ?st = "if native_result X call = None then 0 else (1::8 word)"
  let ?w' = "w @ Native call #
        (case native_result X call of
           None \<Rightarrow> []
         | Some m \<Rightarrow> [Write (Stderr (HandlerCtx c)) (command @ '': '' @ m @ [CHR 0x0A])])"
  have ex: "ExecHandler X e c (command # args) w = (Some (ExitStatus ?st), ?w')"
    using sw executePipelineCommand_enabled[OF assms(1)] by (simp add: ExecHandler_handled)
  have nc: "native_calls ?w' = native_calls w @ [call]"
    by (simp add: native_calls_append split: option.split)
  have st: "?st = 0 \<longleftrightarrow> native_result X call = None" by simp
  show ?thesis
    by (rule exI[of _ call], rule exI[of _ "?st"], rule exI[of _ "?w'"])
       (intro conjI ex nc tab ar cx st)
qed

theorem C1_witness:
  "enablePipelineCommands e_on \<and> ''create_deployments'' \<in> set reserved_commands
 \<and> (\<exists>call status w'.
        ExecHandler X0 e_on c0 [''create_deployments'', ''myapp''] [] = (Some (ExitStatus status), w')
      \<and> native_calls w' = native_calls [] @ [call]
      \<and> map_of spec_command_table ''create_deployments'' = Some (subsystem_of call)
      \<and> call_args call = [''myapp'']
      \<and> call_ctx call = devCtx_of e_on c0
      \<and> (status = 0 \<longleftrightarrow> native_result X0 call = None))"
proof -
  have h1: "enablePipelineCommands e_on" by (simp add: e_on_def)
  have h2: "''create_deployments'' \<in> set reserved_commands" by (simp add: reserved_commands_def)
  show ?thesis
    by (intro conjI h1 h2
          C1_reserved_enabled_calls_mapped_subsystem[OF h1 h2, of X0 c0 "[''myapp'']" "[]"])
qed

text \<open>
  Claim C2. With pipeline commands disabled, a reserved command is handled without any
  native call: the handler writes the name followed by
  \<open>: cannot execute the command because it can only be executed within a pipeline step\<close>
  as one line to the invocation's error stream and returns exit status 1.
\<close>

theorem C2_reserved_disabled_rejected:
  assumes "\<not> enablePipelineCommands e" and "command \<in> set reserved_commands"
  shows "handlePipelineCommands X e c command args w =
           ((True, Some (ExitStatus 1)),
            w @ [Write (Stderr (HandlerCtx c))
                   (command @ '': cannot execute the command because it can only be executed within a pipeline step'' @ [CHR 0x0A])])
       \<and> ExecHandler X e c (command # args) w =
           (Some (ExitStatus 1),
            w @ [Write (Stderr (HandlerCtx c))
                   (command @ '': cannot execute the command because it can only be executed within a pipeline step'' @ [CHR 0x0A])])
       \<and> native_calls (snd (ExecHandler X e c (command # args) w)) = native_calls w"
proof -
  obtain call where sw: "handlePipelineCommands X e c command args w =
                  executePipelineCommand e c command (call_native X call) w"
    using switch_reserved[OF assms(2), of X e c args w] by blast
  show ?thesis
    using sw executePipelineCommand_disabled[OF assms(1)]
    by (simp add: ExecHandler_handled native_calls_append)
qed

theorem C2_witness:
  "\<not> enablePipelineCommands e_off \<and> ''build_images'' \<in> set reserved_commands
 \<and> ExecHandler X0 e_off c0 [''build_images'', ''--all''] [] =
      (Some (ExitStatus 1),
       [Write 2 (''build_images: cannot execute the command because it can only be executed within a pipeline step'' @ [CHR 0x0A])])
 \<and> native_calls (snd (ExecHandler X0 e_off c0 [''build_images'', ''--all''] [])) = []"
proof -
  have h1: "\<not> enablePipelineCommands e_off" by (simp add: e_off_def)
  have h2: "''build_images'' \<in> set reserved_commands" by (simp add: reserved_commands_def)
  show ?thesis
    using h1 h2 C2_reserved_disabled_rejected[OF h1 h2, of X0 c0 "[''--all'']" "[]"]
    by (simp add: c0_def hc0_def)
qed

text \<open>
  Claim C3. A reserved command is always handled: \<open>handlePipelineCommands\<close> reports
  \<open>handled\<close>, the handler returns an exit status (status 1 when pipeline commands are
  disabled), and the handler's trace gains no path lookup, no entry into the fallback
  provider, no acquisition and no default process execution.
\<close>

theorem C3_reserved_always_handled:
  assumes "command \<in> set reserved_commands"
  shows "fst (fst (handlePipelineCommands X e c command args w))
       \<and> (\<exists>status. fst (ExecHandler X e c (command # args) w) = Some (ExitStatus status))
       \<and> (\<not> enablePipelineCommands e \<longrightarrow>
            fst (ExecHandler X e c (command # args) w) = Some (ExitStatus 1))
       \<and> filter is_resolution (snd (ExecHandler X e c (command # args) w)) = filter is_resolution w"
proof -
  obtain call where sw: "handlePipelineCommands X e c command args w =
                  executePipelineCommand e c command (call_native X call) w"
    using switch_reserved[OF assms, of X e c args w] by blast
  show ?thesis
  proof (cases "enablePipelineCommands e")
    case True
    show ?thesis
      using True sw executePipelineCommand_enabled[OF True, of c command X call w]
      by (simp add: ExecHandler_handled split: option.split)
  next
    case False
    show ?thesis
      using sw executePipelineCommand_disabled[OF False, of c command "call_native X call" w]
      by (simp add: ExecHandler_handled)
  qed
qed

theorem C3_witness:
  "''start_dev'' \<in> set reserved_commands
 \<and> fst (fst (handlePipelineCommands X0 e_off c0 ''start_dev'' [''svc-a''] []))
 \<and> fst (ExecHandler X0 e_off c0 [''start_dev'', ''svc-a''] []) = Some (ExitStatus 1)
 \<and> filter is_resolution (snd (ExecHandler X0 e_off c0 [''start_dev'', ''svc-a''] [])) = []"
proof -
  have h: "''start_dev'' \<in> set reserved_commands" by (simp add: reserved_commands_def)
  have off: "\<not> enablePipelineCommands e_off" by (simp add: e_off_def)
  show ?thesis
    using h off C3_reserved_always_handled[OF h, of X0 e_off c0 "[''svc-a'']" "[]"]
    by simp
qed

subsection \<open>The result translator\<close>

text \<open>
  Claim C4, as amended. Both translators map a nil error to exit status 0 and every
  other error to exit status 1, whatever the error is, after writing one line to the
  invocation's error stream. The full engine's line is the error's message prefixed with
  the command name and a colon; the reduced engine's \<open>handleError\<close> takes no command name
  and its line is the error's message alone.
\<close>

theorem C4_handleError_mapping:
  "handleError c command None w = (Some (ExitStatus 0), w)
 \<and> handleError c command (Some m) w =
      (Some (ExitStatus 1), w @ [Write (Stderr (HandlerCtx c)) (command @ '': '' @ m @ [CHR 0x0A])])
 \<and> handleError_reduced c None w = (Some (ExitStatus 0), w)
 \<and> handleError_reduced c (Some m) w =
      (Some (ExitStatus 1), w @ [Write (Stderr (HandlerCtx c)) (m @ [CHR 0x0A])])"
  by (simp add: handleError_def handleError_reduced_def NewExitStatus_def Fprintln_def errors_Wrap_def)

text \<open>
  The claim as first stated fails on the reduced engine: when the build subsystem fails
  with \<open>boom\<close>, the command \<open>build\<close> writes \<open>boom\<close> to the error stream, not
  \<open>build: boom\<close>.
\<close>

theorem C4_counterexample:
  "fst (ExecHandler_reduced X0 e_red c0 [''build''] []) = Some (ExitStatus 1)
 \<and> written 2 (snd (ExecHandler_reduced X0 e_red c0 [''build''] [])) = [''boom'' @ [CHR 0x0A]]
 \<and> written 2 (snd (ExecHandler_reduced X0 e_red c0 [''build''] []))
      \<noteq> [errors_Wrap ''boom'' ''build'' @ [CHR 0x0A]]"
  by (simp add: ExecHandler_reduced_def handlePipelineCommands_reduced_def call_native_def
        handleError_reduced_def NewExitStatus_def Fprintln_def errors_Wrap_def X0_def c0_def hc0_def)

subsection \<open>The fallback provider\<close>

text \<open>
  Claim C5 (the code departs from it). The cluster CLI is not on the local path and its
  acquisition succeeds with \<open>/cache/kubectl\<close>. Inside \<open>fallbackCommands\<close> the local
  \<open>command\<close> ends as \<open>/cache/kubectl\<close>, but the caller never sees it: default process
  execution is run with the original argument list, whose first element is still
  \<open>kubectl\<close>.
\<close>

theorem C5_resolved_path_not_substituted:
  "ExecHandler X0 e_on c0 [''kubectl'', ''get'', ''pods''] [] =
     (Some (ExitStatus 127),
      [LookPath ''/work/step'' [] ''kubectl'', Fallback ''kubectl'' [''get'', ''pods''],
       EnsureCommandCall KubectlCommand, DefaultExec c0 [''kubectl'', ''get'', ''pods'']])
 \<and> fst (fst (fallbackCommands_locals X0 e_on c0 ''kubectl'' [''get'', ''pods''] [])) = ''/cache/kubectl''
 \<and> default_execs (snd (ExecHandler X0 e_on c0 [''kubectl'', ''get'', ''pods''] []))
       \<noteq> [[''/cache/kubectl'', ''get'', ''pods'']]"
  by (simp add: ExecHandler_def handlePipelineCommands_def fallbackCommands_def
        fallbackCommands_locals_def call_DefaultExecHandler_def NewExitStatus_def
        X0_def c0_def hc0_def)

lemma handlePipelineCommands_not_reserved:
  "command \<notin> set reserved_commands \<Longrightarrow>
   handlePipelineCommands X e c command args w = ((False, None), w)"
  by (simp add: handlePipelineCommands_def reserved_commands_def)

lemma handlePipelineCommands_reduced_not_reserved:
  "command \<notin> set reduced_commands \<Longrightarrow>
   handlePipelineCommands_reduced X r c command args w = ((False, None), w)"
  by (simp add: handlePipelineCommands_reduced_def reduced_commands_def)

lemma fallbackCommands_unknown:
  "command \<notin> set fallback_commands \<Longrightarrow>
   fallbackCommands X e c command args w = (None, w @ [Fallback command args])"
  by (simp add: fallbackCommands_def fallbackCommands_locals_def fallback_commands_def)

lemma fallbackCommands_reduced_unknown:
  "command \<notin> set fallback_commands \<Longrightarrow>
   fallbackCommands_reduced X r c command args w =
     (Some (ExitStatus 127),
      w @ [Fallback command args,
           Write (Stderr (HandlerCtx c)) (''command is not found.'' @ [CHR 0x0A])])"
  by (simp add: fallbackCommands_reduced_def fallbackCommands_reduced_locals_def
        fallback_commands_def NewExitStatus_def Fprintln_def)

text \<open>
  Claim C6, as amended. A name that is not found on the local path and that the fallback
  provider's switch does not list: in the full engine, if the name is not reserved, the
  provider returns nil and writes nothing, and the handler's result is the result of
  default process execution on the unchanged argument list; in the reduced engine, if
  the name is not one of its commands, the provider itself writes
  \<open>command is not found.\<close> to the error stream and returns exit status 127, and default
  process execution is not run.
\<close>

theorem C6_unknown_name:
  assumes "command \<notin> set fallback_commands"
      and "snd (lookPathDir X (Dir (HandlerCtx c)) (Env (HandlerCtx c)) command) \<noteq> None"
  shows "(command \<notin> set reserved_commands \<longrightarrow>
            fallbackCommands X e c command args w = (None, w @ [Fallback command args])
          \<and> ExecHandler X e c (command # args) w =
              (DefaultExecHandler X c (command # args),
               w @ [LookPath (Dir (HandlerCtx c)) (Env (HandlerCtx c)) command,
                    Fallback command args, DefaultExec c (command # args)]))
       \<and> (command \<notin> set reduced_commands \<longrightarrow>
            ExecHandler_reduced X r c (command # args) w =
              (Some (ExitStatus 127),
               w @ [LookPath (Dir (HandlerCtx c)) (Env (HandlerCtx c)) command,
                    Fallback command args,
                    Write (Stderr (HandlerCtx c)) (''command is not found.'' @ [CHR 0x0A])]))"
  using assms
  by (simp add: ExecHandler_def ExecHandler_reduced_def handlePipelineCommands_not_reserved
        handlePipelineCommands_reduced_not_reserved fallbackCommands_unknown
        fallbackCommands_reduced_unknown call_DefaultExecHandler_def Let_def)

theorem C6_witness:
  "''totally-unknown-tool'' \<notin> set fallback_commands
 \<and> snd (lookPathDir X0 (Dir (HandlerCtx c0)) (Env (HandlerCtx c0)) ''totally-unknown-tool'') \<noteq> None
 \<and> ''totally-unknown-tool'' \<notin> set reserved_commands
 \<and> ''totally-unknown-tool'' \<notin> set reduced_commands
 \<and> ExecHandler X0 e_on c0 [''totally-unknown-tool''] [] =
      (Some (ExitStatus 127),
       [LookPath ''/work/step'' [] ''totally-unknown-tool'', Fallback ''totally-unknown-tool'' [],
        DefaultExec c0 [''totally-unknown-tool'']])
 \<and> ExecHandler_reduced X0 e_red c0 [''totally-unknown-tool''] [] =
      (Some (ExitStatus 127),
       [LookPath ''/work/step'' [] ''totally-unknown-tool'', Fallback ''totally-unknown-tool'' [],
        Write 2 (''command is not found.'' @ [CHR 0x0A])])"
proof -
  have h1: "''totally-unknown-tool'' \<notin> set fallback_commands"
    by (simp add: fallback_commands_def)
  have h2: "snd (lookPathDir X0 (Dir (HandlerCtx c0)) (Env (HandlerCtx c0)) ''totally-unknown-tool'') \<noteq> None"
    by (simp add: X0_def)
  have h3: "''totally-unknown-tool'' \<notin> set reserved_commands"
    by (simp add: reserved_commands_def)
  have h4: "''totally-unknown-tool'' \<notin> set reduced_commands"
    by (simp add: reduced_commands_def)
  have d: "DefaultExecHandler X0 c0 [''totally-unknown-tool''] = Some (ExitStatus 127)"
    by (simp add: X0_def NewExitStatus_def)
  show ?thesis
    using h1 h2 h3 h4 d C6_unknown_name[OF h1 h2, of e_on "[]" "[]" e_red]
    by (simp add: c0_def hc0_def)
qed

text \<open>
  The claim as first stated fails on the reduced engine: for an unknown name its
  fallback provider writes \<open>command is not found.\<close> and returns exit status 127 itself,
  and default process execution is never run.
\<close>

theorem C6_counterexample:
  "ExecHandler_reduced X0 e_red c0 [''totally-unknown-tool''] [] =
     (Some (ExitStatus 127),
      [LookPath ''/work/step'' [] ''totally-unknown-tool'', Fallback ''totally-unknown-tool'' [],
       Write 2 (''command is not found.'' @ [CHR 0x0A])])
 \<and> default_execs (snd (ExecHandler_reduced X0 e_red c0 [''totally-unknown-tool''] [])) = []"
  by (simp add: ExecHandler_reduced_def handlePipelineCommands_reduced_def
        fallbackCommands_reduced_def fallbackCommands_reduced_locals_def NewExitStatus_def
        Fprintln_def X0_def c0_def hc0_def)

lemma fallbackCommands_cat:
  "fallbackCommands X e c ''cat'' args w =
     (case enginecommands_Cat X (HandlerCtx c) args of
        Some m \<Rightarrow>
          (Some (ExitStatus 1),
           w @ [Fallback ''cat'' args, CatCall (HandlerCtx c) args,
                Write (Stderr (HandlerCtx c)) (m @ [CHR 0x0A])])
      | None \<Rightarrow> (Some (ExitStatus 0), w @ [Fallback ''cat'' args, CatCall (HandlerCtx c) args]))"
  by (simp add: fallbackCommands_def fallbackCommands_locals_def NewExitStatus_def Fprintln_def
        Let_def split: option.split)

lemma fallbackCommands_kubectl:
  "fallbackCommands X e c ''kubectl'' args w =
     (case snd (EnsureCommand X KubectlCommand) of
        Some m \<Rightarrow>
          (Some (ExitStatus 127),
           w @ [Fallback ''kubectl'' args, EnsureCommandCall KubectlCommand,
                Write (Stderr (HandlerCtx c)) (m @ [CHR 0x0A])])
      | None \<Rightarrow> (None, w @ [Fallback ''kubectl'' args, EnsureCommandCall KubectlCommand]))"
  by (simp add: fallbackCommands_def fallbackCommands_locals_def NewExitStatus_def Fprintln_def
        Let_def split: option.split prod.split)

lemma fallbackCommands_helm:
  "fallbackCommands X e c ''helm'' args w =
     (case snd (EnsureCommand X HelmV3Command) of
        Some m \<Rightarrow>
          (Some (ExitStatus 127),
           w @ [Fallback ''helm'' args, EnsureCommandCall HelmV3Command,
                Write (Stderr (HandlerCtx c)) (m @ [CHR 0x0A])])
      | None \<Rightarrow> (None, w @ [Fallback ''helm'' args, EnsureCommandCall HelmV3Command]))"
  by (simp add: fallbackCommands_def fallbackCommands_locals_def NewExitStatus_def Fprintln_def
        Let_def split: option.split prod.split)

lemma fallbackCommands_devspace:
  "fallbackCommands X e c ''devspace'' args w =
     (case snd (os_Executable X) of
        Some m \<Rightarrow>
          (Some (ExitStatus 1),
           w @ [Fallback ''devspace'' args, ExecutableCall,
                Write (Stderr (HandlerCtx c)) (m @ [CHR 0x0A])])
      | None \<Rightarrow> (None, w @ [Fallback ''devspace'' args, ExecutableCall]))"
  by (simp add: fallbackCommands_def fallbackCommands_locals_def NewExitStatus_def Fprintln_def
        Let_def split: option.split prod.split)

lemma fallback_cases:
  "command = ''cat'' \<or> command = ''kubectl'' \<or> command = ''helm'' \<or> command = ''devspace''
   \<or> command \<notin> set fallback_commands"
  by (auto simp: fallback_commands_def)

text \<open>
  Claim C7. In the full engine's fallback provider, exit status 127 is returned exactly
  when the acquisition of the cluster CLI or of the package-manager CLI fails; exit
  status 1 exactly when the native file concatenation reports an error or the
  orchestrator's own binary path cannot be resolved; the provider returns nothing but
  nil and the statuses 0, 1 and 127; and in each of the four failures the error is
  written as one line to the invocation's error stream before the status is returned.
\<close>

theorem C7_fallback_statuses:
  "(fst (fallbackCommands X e c command args w) = Some (ExitStatus 127) \<longleftrightarrow>
      (command = ''kubectl'' \<and> snd (EnsureCommand X KubectlCommand) \<noteq> None)
    \<or> (command = ''helm'' \<and> snd (EnsureCommand X HelmV3Command) \<noteq> None))
 \<and> (fst (fallbackCommands X e c command args w) = Some (ExitStatus 1) \<longleftrightarrow>
      (command = ''cat'' \<and> enginecommands_Cat X (HandlerCtx c) args \<noteq> None)
    \<or> (command = ''devspace'' \<and> snd (os_Executable X) \<noteq> None))
 \<and> (fst (fallbackCommands X e c command args w) = Some (ExitStatus 0) \<longleftrightarrow>
      command = ''cat'' \<and> enginecommands_Cat X (HandlerCtx c) args = None)
 \<and> fst (fallbackCommands X e c command args w) \<in>
      {None, Some (ExitStatus 0), Some (ExitStatus 1), Some (ExitStatus 127)}
 \<and> (\<forall>m. command = ''cat'' \<and> enginecommands_Cat X (HandlerCtx c) args = Some m \<longrightarrow>
        fallbackCommands X e c command args w =
          (Some (ExitStatus 1),
           w @ [Fallback command args, CatCall (HandlerCtx c) args,
                Write (Stderr (HandlerCtx c)) (m @ [CHR 0x0A])]))
 \<and> (\<forall>m. command = ''devspace'' \<and> snd (os_Executable X) = Some m \<longrightarrow>
        fallbackCommands X e c command args w =
          (Some (ExitStatus 1),
           w @ [Fallback command args, ExecutableCall,
                Write (Stderr (HandlerCtx c)) (m @ [CHR 0x0A])]))
 \<and> (\<forall>m. command = ''kubectl'' \<and> snd (EnsureCommand X KubectlCommand) = Some m \<longrightarrow>
        fallbackCommands X e c command args w =
          (Some (ExitStatus 127),
           w @ [Fallback command args, EnsureCommandCall KubectlCommand,
                Write (Stderr (HandlerCtx c)) (m @ [CHR 0x0A])]))
 \<and> (\<forall>m. command = ''helm'' \<and> snd (EnsureCommand X HelmV3Command) = Some m \<longrightarrow>
        fallbackCommands X e c command args w =
          (Some (ExitStatus 127),
           w @ [Fallback command args, EnsureCommandCall HelmV3Command,
                Write (Stderr (HandlerCtx c)) (m @ [CHR 0x0A])]))"
proof -
  consider (cat) "command = ''cat''" | (kubectl) "command = ''kubectl''"
    | (helm) "command = ''helm''" | (devspace) "command = ''devspace''"
    | (other) "command \<notin> set fallback_commands"
    using fallback_cases[of command] by (elim disjE)
  then show ?thesis
  proof cases
    case cat
    show ?thesis unfolding cat
      by (simp add: fallbackCommands_cat split: option.split)
  next
    case kubectl
    show ?thesis unfolding kubectl
      by (simp add: fallbackCommands_kubectl split: option.split)
  next
    case helm
    show ?thesis unfolding helm
      by (simp add: fallbackCommands_helm split: option.split)
  next
    case devspace
    show ?thesis unfolding devspace
      by (simp add: fallbackCommands_devspace split: option.split)
  next
    case other
    then have ne: "command \<noteq> ''cat''" "command \<noteq> ''kubectl''" "command \<noteq> ''helm''"
      "command \<noteq> ''devspace''"
      by (simp_all add: fallback_commands_def)
    show ?thesis
      by (simp add: fallbackCommands_unknown[OF other] ne)
  qed
qed

theorem C7_witness:
  "fallbackCommands X0 e_on c0 ''helm'' [''version''] [] =
     (Some (ExitStatus 127),
      [Fallback ''helm'' [''version''], EnsureCommandCall HelmV3Command,
       Write 2 (''download failed'' @ [CHR 0x0A])])
 \<and> fallbackCommands X0 e_on c0 ''cat'' [''missing.txt''] [] =
     (Some (ExitStatus 1),
      [Fallback ''cat'' [''missing.txt''], CatCall hc0 [''missing.txt''],
       Write 2 (''open: no such file'' @ [CHR 0x0A])])"
proof -
  have h1: "snd (EnsureCommand X0 HelmV3Command) = Some ''download failed''"
    by (simp add: X0_def)
  have h2: "enginecommands_Cat X0 (HandlerCtx c0) [''missing.txt''] = Some ''open: no such file''"
    by (simp add: X0_def)
  show ?thesis
    using h1 C7_fallback_statuses[of X0 e_on c0 "''helm''" "[''version'']" "[]"]
          h2 C7_fallback_statuses[of X0 e_on c0 "''cat''" "[''missing.txt'']" "[]"]
    by (simp add: c0_def hc0_def)
qed

subsection \<open>The invocation context\<close>

text \<open>
  Claim C8, as amended. In the full engine the context derived for an invocation has the
  ambient logger when the handler's top-level output stream is the invocation's output
  stream, and otherwise a new stream logger on the invocation's output stream; in both
  cases the logger's level is the ambient logger's, the working directory is the
  invocation's, the Go context is the invocation's and the shared state is the ambient
  one. The reduced engine has no top-level output stream and makes no such test: it
  always makes the new stream logger on the invocation's output stream, at the ambient
  logger's level, with the invocation's working directory.
\<close>

theorem C8_derived_context:
  "(e_stdout e = Some (Stdout (HandlerCtx c)) \<longrightarrow> Log (devCtx_of e c) = Log (e_ctx e))
 \<and> (e_stdout e \<noteq> Some (Stdout (HandlerCtx c)) \<longrightarrow>
      Log (devCtx_of e c) = NewStreamLogger (Stdout (HandlerCtx c)) (GetLevel (Log (e_ctx e))))
 \<and> GetLevel (Log (devCtx_of e c)) = GetLevel (Log (e_ctx e))
 \<and> WorkingDir (devCtx_of e c) = Dir (HandlerCtx c)
 \<and> GoContext (devCtx_of e c) = c
 \<and> shared (devCtx_of e c) = shared (e_ctx e)
 \<and> Log (devCtx_of_reduced r c) = NewStreamLogger (Stdout (HandlerCtx c)) (GetLevel (Log (r_ctx r)))
 \<and> WorkingDir (devCtx_of_reduced r c) = Dir (HandlerCtx c)"
  by (simp add: devCtx_of_def devCtx_of_reduced_def WithContext_def WithWorkingDir_def
        WithLogger_def NewStreamLogger_def Let_def)

theorem C8_witness:
  "e_stdout e_on = Some (Stdout (HandlerCtx c0))
 \<and> Log (devCtx_of e_on c0) = Logger 0 4
 \<and> e_stdout e_off \<noteq> Some (Stdout (HandlerCtx c0))
 \<and> Log (devCtx_of e_off c0) = StreamLogger 1 4
 \<and> WorkingDir (devCtx_of e_on c0) = ''/work/step''
 \<and> WorkingDir (devCtx_of e_off c0) = ''/work/step''"
proof -
  have h1: "e_stdout e_on = Some (Stdout (HandlerCtx c0))"
    by (simp add: e_on_def c0_def hc0_def)
  have h2: "e_stdout e_off \<noteq> Some (Stdout (HandlerCtx c0))"
    by (simp add: e_off_def c0_def hc0_def)
  show ?thesis
    using h1 h2 C8_derived_context[of e_on c0 e_red] C8_derived_context[of e_off c0 e_red]
    by (simp add: e_on_def e_off_def ctx0_def c0_def hc0_def NewStreamLogger_def)
qed

text \<open>
  The claim as first stated fails on the reduced engine. The invocation writes to stream
  1, the very stream that the full engine's handler has as its top-level output stream
  and for which it reuses the ambient logger. The reduced engine's handler, on the same
  ambient context, has no top-level output stream to compare with: the context it derives,
  and passes to the deploy subsystem, carries a new stream logger on stream 1, not the
  ambient logger.
\<close>

theorem C8_counterexample:
  "Stdout (HandlerCtx c0) = 1
 \<and> e_stdout e_on = Some 1
 \<and> r_ctx e_red = e_ctx e_on
 \<and> Log (devCtx_of e_on c0) = Log (e_ctx e_on)
 \<and> Log (devCtx_of_reduced e_red c0) = StreamLogger 1 4
 \<and> Log (devCtx_of_reduced e_red c0) \<noteq> Log (r_ctx e_red)
 \<and> map call_ctx (native_calls (snd (ExecHandler_reduced X0 e_red c0 [''deploy'', ''myapp''] [])))
      = [devCtx_of_reduced e_red c0]"
  by (simp add: ExecHandler_reduced_def handlePipelineCommands_reduced_def call_native_def
        handleError_reduced_def NewExitStatus_def devCtx_of_def devCtx_of_reduced_def
        WithContext_def WithWorkingDir_def WithLogger_def NewStreamLogger_def Let_def
        X0_def e_on_def e_red_def ctx0_def c0_def hc0_def)

section \<open>Properties of the kubectl deployer\<close>

text \<open>
  With \<open>forceDeploy\<close> true the second loop, when it finishes, has run one apply per
  manifest, in order, has logged nothing and has left the cache alone.
\<close>

lemma applyManifests_forced:
  "applyManifests K d ctx True ms wd0 s = (Inr wd, s') \<Longrightarrow>
     runs s' = runs s @ map (\<lambda>m. apply_run d ctx (fst (snd (getReplacedManifest K d ctx m)))) ms
   \<and> k_log s' = k_log s \<and> remote_cache s' = remote_cache s
   \<and> wd = (wd0 \<or> ms \<noteq> [])"
proof (induction ms arbitrary: wd0 s)
  case Nil
  then show ?case by simp
next
  case (Cons m ms)
  obtain sr rm e where g: "getReplacedManifest K d ctx m = (sr, rm, e)"
    by (cases "getReplacedManifest K d ctx m") auto
  from Cons.prems g obtain
    e: "e = None" and r: "cmd_Run K (runs s) (apply_run d ctx rm) = None"
    and rec: "applyManifests K d ctx True ms True (s\<lparr>runs := runs s @ [apply_run d ctx rm]\<rparr>) = (Inr wd, s')"
    by (auto simp: Let_def split: option.splits)
  from Cons.IH[OF rec] g show ?case by simp
qed

text \<open>
  Claim C9. When \<open>Deploy\<close> returns without error, the hashes of the manifests and of
  the deployment configuration were computed, the commands run are exactly one
  \<open>kubectl apply --force\<close> per manifest, in the order of the manifests, each reading its
  replaced manifest, the log has the start and the stop of the wait and no skipped
  manifest, and the cache entry of the deployment is the one read at the start with the
  two hashes replaced by the computed ones. None of this depends on what the cache held
  or on what \<open>getReplacedManifest\<close> said about redeploying.
\<close>

theorem C9_deploy_applies_every_manifest:
  assumes "Deploy K d ctx s = ((wasDeployed, None), s')"
  shows "\<exists>manifestsHash configStr.
           hashManifests K ctx (d_Manifests d) [] = Inr manifestsHash
         \<and> yaml_Marshal_config K (d_DeploymentConfig d) = (configStr, None)
         \<and> runs s' = runs s @ map (\<lambda>m. apply_run d ctx (fst (snd (getReplacedManifest K d ctx m))))
                                 (d_Manifests d)
         \<and> k_log s' = k_log s @ [StartWait ''Applying manifests with kubectl'', StopWait]
         \<and> remote_cache s' =
             SetDeploymentCache K (remote_cache s) (dc_Name (d_DeploymentConfig d))
               ((GetDeploymentCache K (remote_cache s) (dc_Name (d_DeploymentConfig d)))
                  \<lparr>KubectlManifestsHash := manifestsHash,
                   DeploymentConfigHash := hash_String K configStr\<rparr>)
         \<and> wasDeployed = (d_Manifests d \<noteq> [])"
proof -
  from assms obtain mh cs s2 where
      h: "hashManifests K ctx (d_Manifests d) [] = Inr mh"
    and y: "yaml_Marshal_config K (d_DeploymentConfig d) = (cs, None)"
    and a: "applyManifests K d ctx True (d_Manifests d) False
              (s\<lparr>k_log := k_log s @ [StartWait ''Applying manifests with kubectl'']\<rparr>)
            = (Inr wasDeployed, s2)"
    and s': "s' = s2\<lparr>remote_cache :=
                      SetDeploymentCache K (remote_cache s2) (dc_Name (d_DeploymentConfig d))
                        ((GetDeploymentCache K (remote_cache s) (dc_Name (d_DeploymentConfig d)))
                           \<lparr>KubectlManifestsHash := mh,
                            DeploymentConfigHash := hash_String K cs\<rparr>),
                    k_log := k_log s2 @ [StopWait]\<rparr>"
    by (auto simp: Deploy_def Let_def split: sum.splits prod.splits option.splits)
  from applyManifests_forced[OF a] h y s' show ?thesis by simp
qed

text \<open>
  The concrete deployment: the cache already holds the hashes \<open>DaDb\<close> and \<open>Hcfg\<close> that
  the run computes, and both manifests are applied all the same.
\<close>

theorem C9_witness:
  "Deploy K0 d0 ctx0 s0 =
     ((True, None),
      \<lparr>runs =
         [\<lparr>run_path = ''kubectl'',
           run_args = [''--context'', ''dev'', ''--namespace'', ''ns'', ''apply'', ''--force'', ''-f'', ''-''],
           run_dir = ''/work'', run_stdin = ''a''\<rparr>,
          \<lparr>run_path = ''kubectl'',
           run_args = [''--context'', ''dev'', ''--namespace'', ''ns'', ''apply'', ''--force'', ''-f'', ''-''],
           run_dir = ''/work'', run_stdin = ''b''\<rparr>],
       k_log = [StartWait ''Applying manifests with kubectl'', StopWait],
       remote_cache = [''app'' \<mapsto> cached0]\<rparr>)
 \<and> GetDeploymentCache K0 (remote_cache s0) ''app'' =
      \<lparr>KubectlManifestsHash = ''DaDb'', DeploymentConfigHash = ''Hcfg'', other_fields = 3\<rparr>
 \<and> hashManifests K0 ctx0 (d_Manifests d0) [] = Inr ''DaDb''
 \<and> hash_String K0 (fst (yaml_Marshal_config K0 (d_DeploymentConfig d0))) = ''Hcfg''
 \<and> length (runs (snd (Deploy K0 d0 ctx0 s0))) = length (runs s0) + length (d_Manifests d0)"
proof -
  have h: "Deploy K0 d0 ctx0 s0 =
     ((True, None),
      \<lparr>runs =
         [\<lparr>run_path = ''kubectl'',
           run_args = [''--context'', ''dev'', ''--namespace'', ''ns'', ''apply'', ''--force'', ''-f'', ''-''],
           run_dir = ''/work'', run_stdin = ''a''\<rparr>,
          \<lparr>run_path = ''kubectl'',
           run_args = [''--context'', ''dev'', ''--namespace'', ''ns'', ''apply'', ''--force'', ''-f'', ''-''],
           run_dir = ''/work'', run_stdin = ''b''\<rparr>],
       k_log = [StartWait ''Applying manifests with kubectl'', StopWait],
       remote_cache = [''app'' \<mapsto> cached0]\<rparr>)"
    by (simp add: Deploy_def K0_def d0_def ctx0_def s0_def cached0_def HasPrefix_def
          getReplacedManifest_def buildManifests_def isKustomizeInstalled_def apply_run_def
          getCmdArgs_def Let_def)
  have c: "GetDeploymentCache K0 (remote_cache s0) ''app'' =
      \<lparr>KubectlManifestsHash = ''DaDb'', DeploymentConfigHash = ''Hcfg'', other_fields = 3\<rparr>"
    by (simp add: K0_def s0_def cached0_def)
  have m: "hashManifests K0 ctx0 (d_Manifests d0) [] = Inr ''DaDb''"
    by (simp add: K0_def d0_def HasPrefix_def)
  have y: "hash_String K0 (fst (yaml_Marshal_config K0 (d_DeploymentConfig d0))) = ''Hcfg''"
    by (simp add: K0_def)
  from C9_deploy_applies_every_manifest[OF h]
  have "length (runs (snd ((True, None::deploy_error option),
          \<lparr>runs =
             [\<lparr>run_path = ''kubectl'',
               run_args = [''--context'', ''dev'', ''--namespace'', ''ns'', ''apply'', ''--force'', ''-f'', ''-''],
               run_dir = ''/work'', run_stdin = ''a''\<rparr>,
              \<lparr>run_path = ''kubectl'',
               run_args = [''--context'', ''dev'', ''--namespace'', ''ns'', ''apply'', ''--force'', ''-f'', ''-''],
               run_dir = ''/work'', run_stdin = ''b''\<rparr>],
           k_log = [StartWait ''Applying manifests with kubectl'', StopWait],
           remote_cache = [''app'' \<mapsto> cached0]\<rparr>)))
        = length (runs s0) + length (d_Manifests d0)"
    by (elim exE conjE) (simp only: snd_conv length_append length_map)
  then have l: "length (runs (snd (Deploy K0 d0 ctx0 s0))) = length (runs s0) + length (d_Manifests d0)"
    by (simp only: h)
  show ?thesis
    by (intro conjI h c m y l)
qed

section \<open>Properties of the version check\<close>

lemma CheckForNewerVersion_done:
  "latestVersionOnce t \<Longrightarrow>
   CheckForNewerVersion U t = (Return (latestVersion t, latestVersionErr t), t)"
  by (simp add: CheckForNewerVersion_def Once_Do_def)

lemma calls_done:
  "latestVersionOnce t \<Longrightarrow>
   calls U n t = (replicate n (Return (latestVersion t, latestVersionErr t)), t)"
  by (induction n) (simp_all add: CheckForNewerVersion_done)

lemma CheckForNewerVersion_first:
  "CheckForNewerVersion U s = (r, s1) \<Longrightarrow>
     latestVersionOnce s1 \<and> lookups s1 \<le> lookups s + 1
   \<and> (\<forall>p. r = Return p \<longrightarrow> p = (latestVersion s1, latestVersionErr s1))"
  by (auto simp: CheckForNewerVersion_def Once_Do_def detect_body_def Let_def
        split: if_splits detected.splits option.splits outcome.splits prod.splits)

text \<open>
  Claim C10. A call makes at most one remote lookup. After it, any number of further
  calls make none: they leave every variable as it is, the lookup count included, and
  each returns the memoised pair. When the first call returned, that pair is the pair it
  returned, so \<open>n + 1\<close> calls in a row return \<open>n + 1\<close> times the same pair. (A first
  call that panics in \<open>semver.MustParse\<close> returns no pair; the Once is done all the same
  and the lookup is not repeated.)
\<close>

theorem C10_lookup_at_most_once:
  "case CheckForNewerVersion U s of
     (r, s1) \<Rightarrow>
       lookups s1 \<le> lookups s + 1
     \<and> calls U n s1 = (replicate n (Return (latestVersion s1, latestVersionErr s1)), s1)
     \<and> (\<forall>p. r = Return p \<longrightarrow> calls U (Suc n) s = (replicate (Suc n) (Return p), s1))"
proof (cases "CheckForNewerVersion U s")
  case (Pair r s1)
  from CheckForNewerVersion_first[OF Pair] calls_done[of s1 U n] Pair show ?thesis by auto
qed

theorem C10_witness:
  "CheckForNewerVersion U0 u0 =
     (Return (''1.3.0'', None),
      u0\<lparr>latestVersion := ''1.3.0'', latestVersionOnce := True, lookups := 1\<rparr>)
 \<and> calls U0 4 u0 =
     (replicate 4 (Return (''1.3.0'', None)),
      u0\<lparr>latestVersion := ''1.3.0'', latestVersionOnce := True, lookups := 1\<rparr>)"
proof -
  have h: "CheckForNewerVersion U0 u0 =
     (Return (''1.3.0'', None),
      u0\<lparr>latestVersion := ''1.3.0'', latestVersionOnce := True, lookups := 1\<rparr>)"
    by (simp add: CheckForNewerVersion_def Once_Do_def detect_body_def U0_def u0_def Let_def)
  have n: "(4::nat) = Suc 3" by simp
  show ?thesis
    using h C10_lookup_at_most_once[where U = U0 and s = u0 and n = 3] unfolding n by simp
qed

text \<open>
  The panic, for the record: with no version set and a release found, the first call
  panics after its lookup, and the calls of a caller that recovered return the empty
  version and no error, without a second lookup.
\<close>

lemma calls_after_panic:
  "calls U0 3 (u0\<lparr>version := []\<rparr>) =
     ([Panic ''semver.MustParse'', Return ([], None), Return ([], None)],
      u0\<lparr>version := [], latestVersionOnce := True, lookups := 1\<rparr>)"
  by (simp add: eval_nat_numeral CheckForNewerVersion_def Once_Do_def detect_body_def U0_def
        u0_def Let_def)

end
